theory Spec2Isabelle
  imports Main "HOL-Library.Multiset"
begin

section \<open>The blogging API of app/main.py\<close>

text \<open>
  The request handlers of \<^verbatim>\<open>src/app/main.py\<close> as functions on an explicit store.
  A handler takes the store and returns its outcome together with the store it leaves
  behind, so that a failing request which had written something would show it.
  A body validated by a schema of \<^verbatim>\<open>src/app/schemas.py\<close> (UserCreate, UserLogin,
  PostCreate) is passed as its fields.
\<close>

subsection \<open>Errors\<close>

text \<open>
  \<open>HTTPException status detail\<close> is the exception the handlers raise themselves.
  \<open>AttributeError\<close> is Python's error for reading an attribute of \<open>None\<close>,
  \<open>KeyError\<close> the one for a missing dictionary key, and \<open>DBAPIError\<close> the one the
  ORM raises when the database engine rejects a statement; none of them is caught in
  main.py.
\<close>

datatype error = HTTPException int string | AttributeError | KeyError | DBAPIError

subsection \<open>Rows and the store\<close>

text \<open>
  Modelled from the spec: the tables User and Post are declared in app/models.py, which
  is not among the sources. The columns are the ones main.py reads and writes and the
  spec's data model lists; the column \<open>id\<close> is \<open>user_id\<close>, respectively \<open>post_id\<close>.
  A creation timestamp is an integer (a count of clock ticks).
\<close>

record user =
  user_id :: int
  username :: string
  hashed_password :: string

record post =
  post_id :: int
  title :: string
  content :: string
  created_at :: int
  author_id :: int

text \<open>A table is the list of its rows in insertion order.\<close>

record db =
  users :: "user list"
  posts :: "post list"

text \<open>
  Modelled from the spec: the surrogate identifier the store gives a new row. The
  engine is configured in app/database.py, which is not among the sources; here a new
  row gets one more than the largest identifier in its table.
\<close>

definition fresh_id :: "int list \<Rightarrow> int" where
  "fresh_id ids = fold max ids 0 + 1"

text \<open>\<^verbatim>\<open>db.query(User).filter(User.username == name).first()\<close>\<close>

definition first_user :: "db \<Rightarrow> string \<Rightarrow> user option" where
  "first_user dbs name = find (\<lambda>u. username u = name) (users dbs)"

text \<open>\<^verbatim>\<open>db.query(Post).filter(Post.id == pid).first()\<close>\<close>

definition first_post :: "db \<Rightarrow> int \<Rightarrow> post option" where
  "first_post dbs pid = find (\<lambda>p. post_id p = pid) (posts dbs)"

subsection \<open>Collaborators that main.py imports\<close>

text \<open>
  \<open>pwd_context\<close> is passlib's CryptContext: \<open>pwd_hash\<close> is \<^verbatim>\<open>pwd_context.hash\<close>
  (with the salt it draws for the call) and \<open>pwd_verify\<close> is \<^verbatim>\<open>pwd_context.verify\<close>
  on a plaintext and a stored hash. Both belong to a library and are parameters.
\<close>

record pwd_context =
  pwd_hash :: "string \<Rightarrow> string"
  pwd_verify :: "string \<Rightarrow> string \<Rightarrow> bool"

text \<open>
  The payload \<^verbatim>\<open>verify_token\<close> returns is a dictionary; main.py reads its entry
  \<^verbatim>\<open>"sub"\<close> only.
\<close>

type_synonym payload = "string \<rightharpoonup> string"

text \<open>
  app/auth.py is not among the sources, so its two functions are parameters of the
  handlers: \<open>create_access_token\<close> is called as
  \<^verbatim>\<open>create_access_token(data={"sub": name})\<close> only and takes that name;
  \<open>verify_token\<close> returns a payload, or \<open>None\<close> (main.py tests \<^verbatim>\<open>payload is None\<close>).
  The type \<open>'t\<close> is the type of token strings. Both functions are the ones in force
  during one request (they read the clock).
\<close>

record 't auth =
  create_access_token :: "string \<Rightarrow> 't"
  verify_token :: "'t \<Rightarrow> payload option"

subsection \<open>Response bodies\<close>

text \<open>\<^verbatim>\<open>{"message": m}\<close>, \<^verbatim>\<open>{"access_token": t, "token_type": k}\<close> and \<^verbatim>\<open>{"user": u}\<close>\<close>

datatype message = Message string

datatype 't token_response = TokenResponse 't string

datatype me_response = MeUser string

subsection \<open>The Authorization Guard\<close>

text \<open>
  \<^verbatim>\<open>get_current_user\<close>: the argument is \<^verbatim>\<open>credentials.credentials\<close>, the token of the
  Authorization header.
\<close>

definition get_current_user :: "'t auth \<Rightarrow> 't \<Rightarrow> error + string" where
  "get_current_user am token =
     (case verify_token am token of
        None \<Rightarrow> Inl (HTTPException 401 ''Invalid or expired token'')
      | Some payload \<Rightarrow>
          (case payload ''sub'' of
             None \<Rightarrow> Inl KeyError
           | Some sub \<Rightarrow> Inr sub))"

text \<open>
  \<^verbatim>\<open>current_user: str = Depends(get_current_user)\<close>: the guard runs before the handler's
  body, and its exception ends the request.
\<close>

definition depends_current_user ::
  "'t auth \<Rightarrow> 't \<Rightarrow> db \<Rightarrow> (string \<Rightarrow> (error + 'a) \<times> db) \<Rightarrow> (error + 'a) \<times> db" where
  "depends_current_user am token dbs handler =
     (case get_current_user am token of
        Inl e \<Rightarrow> (Inl e, dbs)
      | Inr current_user \<Rightarrow> handler current_user)"

subsection \<open>Handlers\<close>

definition signup :: "pwd_context \<Rightarrow> db \<Rightarrow> string \<Rightarrow> string \<Rightarrow> (error + message) \<times> db" where
  "signup pc dbs uname password =
     (case first_user dbs uname of
        Some existing_user \<Rightarrow> (Inl (HTTPException 400 ''Username already exists''), dbs)
      | None \<Rightarrow>
          (let hashed = pwd_hash pc password;
               new_user = \<lparr>user_id = fresh_id (map user_id (users dbs)),
                           username = uname, hashed_password = hashed\<rparr>
           in (Inr (Message ''User created successfully''),
               dbs\<lparr>users := users dbs @ [new_user]\<rparr>)))"

definition signin ::
  "pwd_context \<Rightarrow> 't auth \<Rightarrow> db \<Rightarrow> string \<Rightarrow> string \<Rightarrow> (error + 't token_response) \<times> db" where
  "signin pc am dbs uname password =
     (case first_user dbs uname of
        None \<Rightarrow> (Inl (HTTPException 401 ''Invalid credentials''), dbs)
      | Some db_user \<Rightarrow>
          if \<not> pwd_verify pc password (hashed_password db_user)
          then (Inl (HTTPException 401 ''Invalid credentials''), dbs)
          else (Inr (TokenResponse (create_access_token am (username db_user)) ''bearer''),
                dbs))"

definition read_current_user :: "string \<Rightarrow> me_response" where
  "read_current_user current_user = MeUser current_user"

text \<open>
  \<open>now\<close> is the clock reading the new row's \<open>created_at\<close> defaults to.
\<close>

definition create_post :: "db \<Rightarrow> int \<Rightarrow> string \<Rightarrow> string \<Rightarrow> string \<Rightarrow> (error + post) \<times> db" where
  "create_post dbs now ptitle pcontent current_user =
     (case first_user dbs current_user of
        None \<Rightarrow> (Inl (HTTPException 404 ''User not found''), dbs)
      | Some db_user \<Rightarrow>
          (let new_post = \<lparr>post_id = fresh_id (map post_id (posts dbs)),
                           title = ptitle, content = pcontent,
                           created_at = now, author_id = user_id db_user\<rparr>
           in (Inr new_post, dbs\<lparr>posts := posts dbs @ [new_post]\<rparr>)))"





definition get_post :: "db \<Rightarrow> int \<Rightarrow> (error + post) \<times> db" where
  "get_post dbs pid =
     (case first_post dbs pid of
        None \<Rightarrow> (Inl (HTTPException 404 ''Post not found''), dbs)
      | Some p \<Rightarrow> (Inr p, dbs))"

text \<open>
  \<^verbatim>\<open>post.title = ...; post.content = ...; db.commit()\<close> is the statement
  \<^verbatim>\<open>UPDATE posts SET title = ?, content = ? WHERE posts.id = ?\<close>, and
  \<^verbatim>\<open>db.refresh(post)\<close> reads the row back: the handler returns the row as written.
  \<^verbatim>\<open>db_user.id\<close> with \<open>db_user\<close> being \<open>None\<close> raises AttributeError.
\<close>

definition update_post ::
  "db \<Rightarrow> int \<Rightarrow> string \<Rightarrow> string \<Rightarrow> string \<Rightarrow> (error + post) \<times> db" where
  "update_post dbs pid ptitle pcontent current_user =
     (case first_post dbs pid of
        None \<Rightarrow> (Inl (HTTPException 404 ''Post not found''), dbs)
      | Some p \<Rightarrow>
          (case first_user dbs current_user of
             None \<Rightarrow> (Inl AttributeError, dbs)
           | Some db_user \<Rightarrow>
               if author_id p \<noteq> user_id db_user
               then (Inl (HTTPException 403 ''Not allowed to edit this post''), dbs)
               else (Inr (p\<lparr>title := ptitle, content := pcontent\<rparr>),
                     dbs\<lparr>posts :=
                       map (\<lambda>q. if post_id q = pid
                                 then q\<lparr>title := ptitle, content := pcontent\<rparr> else q)
                           (posts dbs)\<rparr>)))"

text \<open>
  \<^verbatim>\<open>db.delete(post); db.commit()\<close> is \<^verbatim>\<open>DELETE FROM posts WHERE posts.id = ?\<close>.
\<close>

definition delete_post :: "db \<Rightarrow> int \<Rightarrow> string \<Rightarrow> (error + message) \<times> db" where
  "delete_post dbs pid current_user =
     (case first_post dbs pid of
        None \<Rightarrow> (Inl (HTTPException 404 ''Post not found''), dbs)
      | Some p \<Rightarrow>
          (case first_user dbs current_user of
             None \<Rightarrow> (Inl AttributeError, dbs)
           | Some db_user \<Rightarrow>
               if author_id p \<noteq> user_id db_user
               then (Inl (HTTPException 403 ''Not allowed to delete this post''), dbs)
               else (Inr (Message ''Post deleted successfully''),
                     dbs\<lparr>posts := filter (\<lambda>q. post_id q \<noteq> pid) (posts dbs)\<rparr>)))"

subsection \<open>Routes behind the guard\<close>

definition route_me :: "'t auth \<Rightarrow> db \<Rightarrow> 't \<Rightarrow> (error + me_response) \<times> db" where
  "route_me am dbs token =
     depends_current_user am token dbs (\<lambda>cu. (Inr (read_current_user cu), dbs))"

definition route_create_post ::
  "'t auth \<Rightarrow> db \<Rightarrow> int \<Rightarrow> 't \<Rightarrow> string \<Rightarrow> string \<Rightarrow> (error + post) \<times> db" where
  "route_create_post am dbs now token ptitle pcontent =
     depends_current_user am token dbs (create_post dbs now ptitle pcontent)"

definition route_update_post ::
  "'t auth \<Rightarrow> db \<Rightarrow> 't \<Rightarrow> int \<Rightarrow> string \<Rightarrow> string \<Rightarrow> (error + post) \<times> db" where
  "route_update_post am dbs token pid ptitle pcontent =
     depends_current_user am token dbs (update_post dbs pid ptitle pcontent)"

definition route_delete_post ::
  "'t auth \<Rightarrow> db \<Rightarrow> 't \<Rightarrow> int \<Rightarrow> (error + message) \<times> db" where
  "route_delete_post am dbs token pid =
     depends_current_user am token dbs (delete_post dbs pid)"

section \<open>The Token Service\<close>

text \<open>
  Modelled from the spec: the Token Service (app/auth.py, which is not among the
  sources), after section 4.2 of the specification. A claim carries a subject, the
  instant of issue and the instant of expiry. A token string is taken in decoded form:
  either it does not decode at all, or it decodes to a claim and a signature. The
  signing algorithm is the parameter \<open>sign\<close>, from a key and a claim to a signature.
\<close>

record claim =
  subject :: string
  issued_at :: int
  expires_at :: int

datatype token_string = Undecodable string | Signed claim string

record token_config =
  signing_key :: string
  lifetime :: int

datatype token_failure = Malformed | Expired

text \<open>
  Modelled from the spec: \<open>issue(subject)\<close> embeds the subject, the instant of issue and
  the expiry, a fixed lifetime later, and signs them with the configured key.
\<close>

definition issue :: "(string \<Rightarrow> claim \<Rightarrow> string) \<Rightarrow> token_config \<Rightarrow> int \<Rightarrow> string \<Rightarrow> token_string" where
  "issue sign cfg now sub =
     (let c = \<lparr>subject = sub, issued_at = now, expires_at = now + lifetime cfg\<rparr>
      in Signed c (sign (signing_key cfg) c))"

text \<open>
  Modelled from the spec: \<open>verify(token_string)\<close> checks the signature first, then the
  expiry, and returns a typed failure; a claim is valid only before its expiry.
\<close>

definition verify ::
  "(string \<Rightarrow> claim \<Rightarrow> string) \<Rightarrow> token_config \<Rightarrow> int \<Rightarrow> token_string \<Rightarrow> token_failure + claim" where
  "verify sign cfg now tok =
     (case tok of
        Undecodable raw \<Rightarrow> Inl Malformed
      | Signed c s \<Rightarrow>
          if s \<noteq> sign (signing_key cfg) c then Inl Malformed
          else if expires_at c \<le> now then Inl Expired
          else Inr c)"

text \<open>
  Modelled from the spec: the Token Service behind the two names main.py imports, at the
  clock reading \<open>now\<close>. \<open>verify_token\<close> hands the guard \<open>None\<close> for either failure, which
  is all the guard tests for, and otherwise the payload with the subject under
  \<^verbatim>\<open>"sub"\<close>.
\<close>

definition token_service ::
  "(string \<Rightarrow> claim \<Rightarrow> string) \<Rightarrow> token_config \<Rightarrow> int \<Rightarrow> token_string auth" where
  "token_service sign cfg now =
     \<lparr>create_access_token = issue sign cfg now,
      verify_token = (\<lambda>tok. case verify sign cfg now tok of
                              Inl failure \<Rightarrow> None
                            | Inr c \<Rightarrow> Some [''sub'' \<mapsto> subject c])\<rparr>"

section \<open>Sample data\<close>

text \<open>
  A small store and stand-ins for the imported collaborators, on which the handlers are
  evaluated. The stand-in hasher prefixes a fixed salt; the stand-in token functions
  prefix one character.
\<close>

definition alice :: user where
  "alice = \<lparr>user_id = 1, username = ''alice'', hashed_password = ''salt:pw1''\<rparr>"

definition bob :: user where
  "bob = \<lparr>user_id = 2, username = ''bob'', hashed_password = ''salt:pw2''\<rparr>"

definition alice_post :: post where
  "alice_post = \<lparr>post_id = 1, title = ''t'', content = ''c'', created_at = 100, author_id = 1\<rparr>"

definition bob_post :: post where
  "bob_post = \<lparr>post_id = 2, title = ''u'', content = ''d'', created_at = 100, author_id = 2\<rparr>"

definition example_db :: db where
  "example_db = \<lparr>users = [alice, bob], posts = [alice_post, bob_post]\<rparr>"

definition example_pwd_context :: pwd_context where
  "example_pwd_context =
     \<lparr>pwd_hash = (\<lambda>p. ''salt:'' @ p), pwd_verify = (\<lambda>p h. h = ''salt:'' @ p)\<rparr>"

definition example_auth :: "string auth" where
  "example_auth =
     \<lparr>create_access_token = (\<lambda>name. CHR ''t'' # name),
      verify_token = (\<lambda>tok. if tok \<noteq> [] \<and> hd tok = CHR ''t''
                              then Some [''sub'' \<mapsto> tl tok] else None)\<rparr>"

definition example_sign :: "string \<Rightarrow> claim \<Rightarrow> string" where
  "example_sign k c = k @ subject c"

definition example_config :: token_config where
  "example_config = \<lparr>signing_key = ''secret'', lifetime = 1800\<rparr>"

definition example_claim :: claim where
  "example_claim = \<lparr>subject = ''alice'', issued_at = 0, expires_at = 1800\<rparr>"




section \<open>Facts about the store\<close>

lemma fold_max_ge: "a \<le> fold max ids (a::int)"
  by (induction ids arbitrary: a) (auto intro: order_trans [OF max.cobounded2])

lemma fold_max_mem: "x \<in> set ids \<Longrightarrow> x \<le> fold max ids (a::int)"
proof (induction ids arbitrary: a)
  case Nil
  then show ?case by simp
next
  case (Cons y ys)
  show ?case
  proof (cases "x = y")
    case True
    have "x \<le> max y a" using True by simp
    also have "\<dots> \<le> fold max ys (max y a)" by (rule fold_max_ge)
    finally show ?thesis by simp
  next
    case False
    with Cons.prems have "x \<in> set ys" by simp
    then show ?thesis using Cons.IH by simp
  qed
qed

lemma fresh_id_new: "fresh_id ids \<notin> set ids"
proof
  assume "fresh_id ids \<in> set ids"
  then have "fresh_id ids \<le> fold max ids 0" by (rule fold_max_mem)
  then show False by (simp add: fresh_id_def)
qed

lemma find_append_None:
  "find P xs = None \<Longrightarrow> find P (xs @ ys) = find P ys"
  by (induction xs) (auto split: if_splits)

lemma find_map_update:
  assumes "find P xs = Some p" "\<And>q. P q \<Longrightarrow> P (f q)"
  shows "find P (map (\<lambda>q. if P q then f q else q) xs) = Some (f p)"
  using assms by (induction xs) (auto split: if_splits)

lemma filter_map_update:
  assumes "\<And>q. P q \<Longrightarrow> P (f q)"
  shows "filter (\<lambda>q. \<not> P q) (map (\<lambda>q. if P q then f q else q) xs) = filter (\<lambda>q. \<not> P q) xs"
  by (induction xs) (auto simp: assms)

lemma find_filter_not: "find P (filter (\<lambda>q. \<not> P q) xs) = None"
  by (induction xs) auto





text \<open>The sample store, evaluated.\<close>

lemma example_first_user:
  "first_user example_db ''alice'' = Some alice"
  "first_user example_db ''bob'' = Some bob"
  "first_user example_db ''carol'' = None"
  "first_user example_db ''ghost'' = None"
  by (simp_all add: first_user_def example_db_def alice_def bob_def)

lemma example_first_post:
  "first_post example_db 1 = Some alice_post"
  "first_post example_db 99 = None"
  by (simp_all add: first_post_def example_db_def alice_post_def bob_post_def)

section \<open>Signup\<close>

text \<open>
  C5. For every password, signup with a username that is already in the User Store
  fails with the conflict error (400, "Username already exists") and creates no user:
  the store is left as it was. With a username that is not in the store, signup hashes
  the password with the Credential Hasher, appends one new User carrying that username
  and that hash under an identifier no stored user has, and returns the success message.
\<close>

theorem signup_conflict_or_created:
  "(first_user dbs uname = Some u \<longrightarrow>
      signup pc dbs uname password =
        (Inl (HTTPException 400 ''Username already exists''), dbs)) \<and>
   (first_user dbs uname = None \<longrightarrow>
      (\<exists>new_user.
         signup pc dbs uname password =
           (Inr (Message ''User created successfully''),
            dbs\<lparr>users := users dbs @ [new_user]\<rparr>) \<and>
         username new_user = uname \<and>
         hashed_password new_user = pwd_hash pc password \<and>
         user_id new_user \<notin> set (map user_id (users dbs))))"
proof (intro conjI impI)
  assume "first_user dbs uname = Some u"
  then show "signup pc dbs uname password =
      (Inl (HTTPException 400 ''Username already exists''), dbs)"
    by (simp add: signup_def)
next
  assume none: "first_user dbs uname = None"
  let ?nu = "\<lparr>user_id = fresh_id (map user_id (users dbs)), username = uname,
              hashed_password = pwd_hash pc password\<rparr>"
  have "signup pc dbs uname password =
      (Inr (Message ''User created successfully''), dbs\<lparr>users := users dbs @ [?nu]\<rparr>)"
    using none by (simp add: signup_def Let_def)
  moreover have "user_id ?nu \<notin> set (map user_id (users dbs))"
    using fresh_id_new [of "map user_id (users dbs)"] by simp
  ultimately show "\<exists>new_user.
         signup pc dbs uname password =
           (Inr (Message ''User created successfully''),
            dbs\<lparr>users := users dbs @ [new_user]\<rparr>) \<and>
         username new_user = uname \<and>
         hashed_password new_user = pwd_hash pc password \<and>
         user_id new_user \<notin> set (map user_id (users dbs))"
    by (intro exI [of _ ?nu]) simp
qed

theorem signup_conflict_or_created_witness:
  "first_user example_db ''alice'' = Some alice \<and>
   signup example_pwd_context example_db ''alice'' ''pw9'' =
     (Inl (HTTPException 400 ''Username already exists''), example_db) \<and>
   first_user example_db ''carol'' = None \<and>
   (\<exists>new_user.
      signup example_pwd_context example_db ''carol'' ''pw3'' =
        (Inr (Message ''User created successfully''),
         example_db\<lparr>users := users example_db @ [new_user]\<rparr>) \<and>
      username new_user = ''carol'' \<and>
      hashed_password new_user = pwd_hash example_pwd_context ''pw3'' \<and>
      user_id new_user \<notin> set (map user_id (users example_db)))"
  using signup_conflict_or_created [of example_db "''alice''" alice example_pwd_context "''pw9''"]
    signup_conflict_or_created [of example_db "''carol''" alice example_pwd_context "''pw3''"]
    example_first_user
  by simp

section \<open>Ownership of posts\<close>

text \<open>
  C1. \<open>update_post\<close> and \<open>delete_post\<close>, called for an authenticated actor: if no Post has
  the given id, both fail with 404 ("Post not found"); if the Post exists and the actor
  resolves to a User whose id differs from the Post's \<open>author_id\<close>, both fail with 403;
  if the actor resolves to the author, update succeeds, writes the new title and content
  to the stored Post and returns the updated Post, and delete succeeds and removes the
  Post. The store is untouched by a failure; the users are untouched by a success.
\<close>

theorem update_delete_post_ownership:
  "(first_post dbs pid = None \<longrightarrow>
      update_post dbs pid t c actor = (Inl (HTTPException 404 ''Post not found''), dbs) \<and>
      delete_post dbs pid actor = (Inl (HTTPException 404 ''Post not found''), dbs)) \<and>
   (first_post dbs pid = Some p \<and> first_user dbs actor = Some u \<and> user_id u \<noteq> author_id p \<longrightarrow>
      update_post dbs pid t c actor =
        (Inl (HTTPException 403 ''Not allowed to edit this post''), dbs) \<and>
      delete_post dbs pid actor =
        (Inl (HTTPException 403 ''Not allowed to delete this post''), dbs)) \<and>
   (first_post dbs pid = Some p \<and> first_user dbs actor = Some u \<and> user_id u = author_id p \<longrightarrow>
      (\<exists>dbs'. update_post dbs pid t c actor = (Inr (p\<lparr>title := t, content := c\<rparr>), dbs') \<and>
              first_post dbs' pid = Some (p\<lparr>title := t, content := c\<rparr>) \<and>
              users dbs' = users dbs) \<and>
      (\<exists>dbs'. delete_post dbs pid actor = (Inr (Message ''Post deleted successfully''), dbs') \<and>
              first_post dbs' pid = None \<and>
              set (posts dbs') = {q \<in> set (posts dbs). post_id q \<noteq> pid} \<and>
              users dbs' = users dbs))"
proof (intro conjI impI)
  assume "first_post dbs pid = None"
  then show "update_post dbs pid t c actor = (Inl (HTTPException 404 ''Post not found''), dbs)"
    by (simp add: update_post_def)
next
  assume "first_post dbs pid = None"
  then show "delete_post dbs pid actor = (Inl (HTTPException 404 ''Post not found''), dbs)"
    by (simp add: delete_post_def)
next
  assume "first_post dbs pid = Some p \<and> first_user dbs actor = Some u \<and> user_id u \<noteq> author_id p"
  then show "update_post dbs pid t c actor =
        (Inl (HTTPException 403 ''Not allowed to edit this post''), dbs)"
    by (auto simp: update_post_def)
next
  assume "first_post dbs pid = Some p \<and> first_user dbs actor = Some u \<and> user_id u \<noteq> author_id p"
  then show "delete_post dbs pid actor =
        (Inl (HTTPException 403 ''Not allowed to delete this post''), dbs)"
    by (auto simp: delete_post_def)
next
  assume a: "first_post dbs pid = Some p \<and> first_user dbs actor = Some u \<and> user_id u = author_id p"
  let ?f = "\<lambda>q::post. q\<lparr>title := t, content := c\<rparr>"
  let ?dbs' = "dbs\<lparr>posts := map (\<lambda>q. if post_id q = pid then ?f q else q) (posts dbs)\<rparr>"
  from a have "find (\<lambda>q. post_id q = pid) (posts dbs) = Some p"
    by (simp add: first_post_def)
  then have "find (\<lambda>q. post_id q = pid) (map (\<lambda>q. if post_id q = pid then ?f q else q) (posts dbs))
      = Some (?f p)"
    by (rule find_map_update) simp
  then have "first_post ?dbs' pid = Some (?f p)"
    by (simp add: first_post_def)
  moreover from a have "update_post dbs pid t c actor = (Inr (?f p), ?dbs')"
    by (simp add: update_post_def)
  ultimately show "\<exists>dbs'. update_post dbs pid t c actor = (Inr (p\<lparr>title := t, content := c\<rparr>), dbs') \<and>
              first_post dbs' pid = Some (p\<lparr>title := t, content := c\<rparr>) \<and>
              users dbs' = users dbs"
    by simp
next
  assume a: "first_post dbs pid = Some p \<and> first_user dbs actor = Some u \<and> user_id u = author_id p"
  let ?dbs' = "dbs\<lparr>posts := filter (\<lambda>q. post_id q \<noteq> pid) (posts dbs)\<rparr>"
  have "first_post ?dbs' pid = None"
    using find_filter_not [of "\<lambda>q. post_id q = pid" "posts dbs"] by (simp add: first_post_def)
  moreover from a have "delete_post dbs pid actor = (Inr (Message ''Post deleted successfully''), ?dbs')"
    by (simp add: delete_post_def)
  ultimately show "\<exists>dbs'. delete_post dbs pid actor = (Inr (Message ''Post deleted successfully''), dbs') \<and>
              first_post dbs' pid = None \<and>
              set (posts dbs') = {q \<in> set (posts dbs). post_id q \<noteq> pid} \<and>
              users dbs' = users dbs"
    by simp
qed

theorem update_delete_post_ownership_witness:
  "first_post example_db 99 = None \<and>
   update_post example_db 99 ''x'' ''y'' ''alice'' =
     (Inl (HTTPException 404 ''Post not found''), example_db) \<and>
   delete_post example_db 99 ''alice'' =
     (Inl (HTTPException 404 ''Post not found''), example_db) \<and>
   first_post example_db 1 = Some alice_post \<and>
   first_user example_db ''bob'' = Some bob \<and> user_id bob \<noteq> author_id alice_post \<and>
   update_post example_db 1 ''x'' ''y'' ''bob'' =
     (Inl (HTTPException 403 ''Not allowed to edit this post''), example_db) \<and>
   delete_post example_db 1 ''bob'' =
     (Inl (HTTPException 403 ''Not allowed to delete this post''), example_db) \<and>
   first_user example_db ''alice'' = Some alice \<and> user_id alice = author_id alice_post \<and>
   (\<exists>dbs'. update_post example_db 1 ''x'' ''y'' ''alice'' =
             (Inr (alice_post\<lparr>title := ''x'', content := ''y''\<rparr>), dbs') \<and>
           first_post dbs' 1 = Some (alice_post\<lparr>title := ''x'', content := ''y''\<rparr>) \<and>
           users dbs' = users example_db) \<and>
   (\<exists>dbs'. delete_post example_db 1 ''alice'' =
             (Inr (Message ''Post deleted successfully''), dbs') \<and>
           first_post dbs' 1 = None \<and>
           set (posts dbs') = {q \<in> set (posts example_db). post_id q \<noteq> 1} \<and>
           users dbs' = users example_db)"
proof -
  have ids: "user_id bob \<noteq> author_id alice_post" "user_id alice = author_id alice_post"
    by (simp_all add: alice_def bob_def alice_post_def)
  show ?thesis
    using update_delete_post_ownership
        [where dbs = example_db and pid = 99 and t = "''x''" and c = "''y''"
           and actor = "''alice''" and p = alice_post and u = alice]
      update_delete_post_ownership
        [where dbs = example_db and pid = 1 and t = "''x''" and c = "''y''"
           and actor = "''bob''" and p = alice_post and u = bob]
      update_delete_post_ownership
        [where dbs = example_db and pid = 1 and t = "''x''" and c = "''y''"
           and actor = "''alice''" and p = alice_post and u = alice]
      example_first_user example_first_post ids
    by simp
qed

text \<open>
  C7. A successful \<open>update_post\<close> writes title and content only. The call succeeds only
  for an existing Post and an actor who is its author; the Post it returns has the id,
  the creation timestamp and the \<open>author_id\<close> of the stored Post and the new title and
  content. In the store every row keeps its id, creation timestamp and \<open>author_id\<close>, the
  rows with another id are unchanged, and so are the users.
\<close>

theorem update_post_frame:
  assumes "update_post dbs pid t c actor = (Inr p', dbs')"
  shows "(\<exists>p u. first_post dbs pid = Some p \<and> first_user dbs actor = Some u \<and>
            user_id u = author_id p \<and>
            post_id p' = post_id p \<and> created_at p' = created_at p \<and>
            author_id p' = author_id p \<and> title p' = t \<and> content p' = c) \<and>
         map post_id (posts dbs') = map post_id (posts dbs) \<and>
         map created_at (posts dbs') = map created_at (posts dbs) \<and>
         map author_id (posts dbs') = map author_id (posts dbs) \<and>
         filter (\<lambda>q. post_id q \<noteq> pid) (posts dbs') = filter (\<lambda>q. post_id q \<noteq> pid) (posts dbs) \<and>
         users dbs' = users dbs"
proof -
  from assms obtain p u where pu: "first_post dbs pid = Some p" "first_user dbs actor = Some u"
      "user_id u = author_id p"
    and p': "p' = p\<lparr>title := t, content := c\<rparr>"
    and d: "dbs' = dbs\<lparr>posts := map (\<lambda>q. if post_id q = pid
                                 then q\<lparr>title := t, content := c\<rparr> else q) (posts dbs)\<rparr>"
    by (auto simp: update_post_def split: option.splits if_splits)
  have m: "map post_id (posts dbs') = map post_id (posts dbs)"
      "map created_at (posts dbs') = map created_at (posts dbs)"
      "map author_id (posts dbs') = map author_id (posts dbs)"
    unfolding d by (simp_all add: comp_def if_distrib cong: if_cong)
  have f: "filter (\<lambda>q. post_id q \<noteq> pid) (posts dbs') = filter (\<lambda>q. post_id q \<noteq> pid) (posts dbs)"
    unfolding d
    using filter_map_update [of "\<lambda>q. post_id q = pid" "\<lambda>q. q\<lparr>title := t, content := c\<rparr>" "posts dbs"]
    by simp
  show ?thesis using pu p' m f d by simp
qed

theorem update_post_frame_witness:
  "update_post example_db 1 ''x'' ''y'' ''alice'' =
     (Inr (alice_post\<lparr>title := ''x'', content := ''y''\<rparr>),
      example_db\<lparr>posts := [alice_post\<lparr>title := ''x'', content := ''y''\<rparr>, bob_post]\<rparr>) \<and>
   map post_id (posts (example_db\<lparr>posts := [alice_post\<lparr>title := ''x'', content := ''y''\<rparr>, bob_post]\<rparr>))
     = map post_id (posts example_db) \<and>
   map created_at (posts (example_db\<lparr>posts := [alice_post\<lparr>title := ''x'', content := ''y''\<rparr>, bob_post]\<rparr>))
     = map created_at (posts example_db) \<and>
   map author_id (posts (example_db\<lparr>posts := [alice_post\<lparr>title := ''x'', content := ''y''\<rparr>, bob_post]\<rparr>))
     = map author_id (posts example_db) \<and>
   users (example_db\<lparr>posts := [alice_post\<lparr>title := ''x'', content := ''y''\<rparr>, bob_post]\<rparr>)
     = users example_db"
proof -
  have h: "update_post example_db 1 ''x'' ''y'' ''alice'' =
     (Inr (alice_post\<lparr>title := ''x'', content := ''y''\<rparr>),
      example_db\<lparr>posts := [alice_post\<lparr>title := ''x'', content := ''y''\<rparr>, bob_post]\<rparr>)"
    by (simp add: update_post_def example_first_user example_first_post)
       (simp add: example_db_def alice_def alice_post_def bob_post_def)
  show ?thesis using h update_post_frame [OF h] by simp
qed

text \<open>
  C8. In \<open>update_post\<close> and \<open>delete_post\<close>, when the targeted Post exists but no User row
  matches the actor's username, the handler reads \<open>db_user.id\<close> of a missing record: the
  outcome is Python's AttributeError, not an HTTP error, and the store is untouched.
  \<open>create_post\<close> guards the same lookup and answers 404 ("User not found").
\<close>

theorem update_delete_missing_actor_row:
  assumes "first_post dbs pid = Some p" and "first_user dbs actor = None"
  shows "update_post dbs pid t c actor = (Inl AttributeError, dbs) \<and>
         delete_post dbs pid actor = (Inl AttributeError, dbs) \<and>
         AttributeError \<noteq> HTTPException status detail \<and>
         create_post dbs now t c actor = (Inl (HTTPException 404 ''User not found''), dbs)"
  using assms by (simp add: update_post_def delete_post_def create_post_def)

theorem update_delete_missing_actor_row_witness:
  "first_post example_db 1 = Some alice_post \<and> first_user example_db ''ghost'' = None \<and>
   update_post example_db 1 ''x'' ''y'' ''ghost'' = (Inl AttributeError, example_db) \<and>
   delete_post example_db 1 ''ghost'' = (Inl AttributeError, example_db) \<and>
   create_post example_db 7 ''x'' ''y'' ''ghost'' =
     (Inl (HTTPException 404 ''User not found''), example_db)"
  using update_delete_missing_actor_row
      [of example_db 1 alice_post "''ghost''" "''x''" "''y''" 404 "''User not found''" 7]
    example_first_user example_first_post
  by simp

section \<open>Signin and the guard\<close>

text \<open>
  C2. A signin that fails because the username is not in the User Store and a signin
  that fails because the password does not verify against the stored hash give the
  caller the same output: \<open>HTTPException 401\<close> with the detail "Invalid credentials",
  and both leave the store as it was. (The outputs are compared; running time is not
  part of the model.)
\<close>

theorem signin_failures_indistinguishable:
  assumes "first_user dbs_a uname_a = None"
    and "first_user dbs_b uname_b = Some u"
    and "\<not> pwd_verify pc password_b (hashed_password u)"
  shows "signin pc am dbs_a uname_a password_a =
           (Inl (HTTPException 401 ''Invalid credentials''), dbs_a) \<and>
         signin pc am dbs_b uname_b password_b =
           (Inl (HTTPException 401 ''Invalid credentials''), dbs_b) \<and>
         fst (signin pc am dbs_a uname_a password_a) = fst (signin pc am dbs_b uname_b password_b)"
  using assms by (simp add: signin_def)

theorem signin_failures_indistinguishable_witness:
  "first_user example_db ''carol'' = None \<and>
   first_user example_db ''alice'' = Some alice \<and>
   \<not> pwd_verify example_pwd_context ''wrong'' (hashed_password alice) \<and>
   signin example_pwd_context example_auth example_db ''carol'' ''pw1'' =
     (Inl (HTTPException 401 ''Invalid credentials''), example_db) \<and>
   signin example_pwd_context example_auth example_db ''alice'' ''wrong'' =
     (Inl (HTTPException 401 ''Invalid credentials''), example_db) \<and>
   fst (signin example_pwd_context example_auth example_db ''carol'' ''pw1'') =
     fst (signin example_pwd_context example_auth example_db ''alice'' ''wrong'')"
proof -
  have h: "\<not> pwd_verify example_pwd_context ''wrong'' (hashed_password alice)"
    by (simp add: example_pwd_context_def alice_def)
  show ?thesis
    using signin_failures_indistinguishable
        [OF example_first_user(3) example_first_user(1) h,
         of example_auth "''pw1''"]
      example_first_user h
    by simp
qed

text \<open>
  C9. Neither the Authorization Guard nor GET /me reads the User Store. For every token
  that verifies and whose payload carries a subject, the guard resolves that subject and
  /me answers with \<open>{"user": subject}\<close>, whatever the store holds; in particular when no
  User with that username is stored. The store is returned unchanged.
\<close>

theorem me_ignores_user_store:
  assumes "verify_token am token = Some payload" and "payload ''sub'' = Some s"
  shows "get_current_user am token = Inr s \<and> route_me am dbs token = (Inr (MeUser s), dbs)"
  using assms
  by (simp add: get_current_user_def route_me_def depends_current_user_def read_current_user_def)

theorem me_ignores_user_store_witness:
  "verify_token example_auth ''tghost'' = Some [''sub'' \<mapsto> ''ghost''] \<and>
   [''sub'' \<mapsto> ''ghost''] ''sub'' = Some ''ghost'' \<and>
   first_user example_db ''ghost'' = None \<and>
   get_current_user example_auth ''tghost'' = Inr ''ghost'' \<and>
   route_me example_auth example_db ''tghost'' = (Inr (MeUser ''ghost''), example_db)"
proof -
  have v: "verify_token example_auth ''tghost'' = Some [''sub'' \<mapsto> ''ghost'']"
    by (simp add: example_auth_def)
  have s: "[''sub'' \<mapsto> ''ghost''] ''sub'' = Some ''ghost''"
    by simp
  show ?thesis
    using me_ignores_user_store [OF v s, of example_db] v example_first_user(4)
    by simp
qed

section \<open>Failures and the store\<close>

text \<open>
  C10. A handler that ends in an error leaves the store as it found it: signup (400),
  signin (401), create_post (404), get_post (404), update_post and delete_post (404,
  403), and the routes behind the guard (401 from the guard, or the handler's own
  error). Every error is raised before anything is added, deleted or committed.
\<close>

theorem failed_handlers_leave_store:
  "(signup pc dbs uname password = (Inl e_a, d_a) \<longrightarrow> d_a = dbs) \<and>
   (signin pc am dbs uname password = (Inl e_b, d_b) \<longrightarrow> d_b = dbs) \<and>
   (create_post dbs now t c actor = (Inl e_c, d_c) \<longrightarrow> d_c = dbs) \<and>
   (get_post dbs pid = (Inl e_d, d_d) \<longrightarrow> d_d = dbs) \<and>
   (update_post dbs pid t c actor = (Inl e_e, d_e) \<longrightarrow> d_e = dbs) \<and>
   (delete_post dbs pid actor = (Inl e_f, d_f) \<longrightarrow> d_f = dbs) \<and>
   (route_me am dbs token = (Inl e_g, d_g) \<longrightarrow> d_g = dbs) \<and>
   (route_create_post am dbs now token t c = (Inl e_h, d_h) \<longrightarrow> d_h = dbs) \<and>
   (route_update_post am dbs token pid t c = (Inl e_i, d_i) \<longrightarrow> d_i = dbs) \<and>
   (route_delete_post am dbs token pid = (Inl e_j, d_j) \<longrightarrow> d_j = dbs)"
proof (intro conjI impI)
  assume "signup pc dbs uname password = (Inl e_a, d_a)"
  then show "d_a = dbs"
    by (auto simp: signup_def Let_def split: option.splits)
next
  assume "signin pc am dbs uname password = (Inl e_b, d_b)"
  then show "d_b = dbs"
    by (auto simp: signin_def split: option.splits if_splits)
next
  assume "create_post dbs now t c actor = (Inl e_c, d_c)"
  then show "d_c = dbs"
    by (auto simp: create_post_def Let_def split: option.splits)
next
  assume "get_post dbs pid = (Inl e_d, d_d)"
  then show "d_d = dbs"
    by (auto simp: get_post_def split: option.splits)
next
  assume "update_post dbs pid t c actor = (Inl e_e, d_e)"
  then show "d_e = dbs"
    by (auto simp: update_post_def split: option.splits if_splits)
next
  assume "delete_post dbs pid actor = (Inl e_f, d_f)"
  then show "d_f = dbs"
    by (auto simp: delete_post_def split: option.splits if_splits)
next
  assume "route_me am dbs token = (Inl e_g, d_g)"
  then show "d_g = dbs"
    by (auto simp: route_me_def depends_current_user_def split: sum.splits)
next
  assume "route_create_post am dbs now token t c = (Inl e_h, d_h)"
  then show "d_h = dbs"
    by (auto simp: route_create_post_def depends_current_user_def create_post_def Let_def
        split: sum.splits option.splits)
next
  assume "route_update_post am dbs token pid t c = (Inl e_i, d_i)"
  then show "d_i = dbs"
    by (auto simp: route_update_post_def depends_current_user_def update_post_def
        split: sum.splits option.splits if_splits)
next
  assume "route_delete_post am dbs token pid = (Inl e_j, d_j)"
  then show "d_j = dbs"
    by (auto simp: route_delete_post_def depends_current_user_def delete_post_def
        split: sum.splits option.splits if_splits)
qed

theorem failed_handlers_leave_store_witness:
  "signup example_pwd_context example_db ''alice'' ''wrong'' =
     (Inl (HTTPException 400 ''Username already exists''), example_db) \<and>
   signin example_pwd_context example_auth example_db ''alice'' ''wrong'' =
     (Inl (HTTPException 401 ''Invalid credentials''), example_db) \<and>
   create_post example_db 7 ''x'' ''y'' ''ghost'' =
     (Inl (HTTPException 404 ''User not found''), example_db) \<and>
   get_post example_db 99 = (Inl (HTTPException 404 ''Post not found''), example_db) \<and>
   update_post example_db 1 ''x'' ''y'' ''bob'' =
     (Inl (HTTPException 403 ''Not allowed to edit this post''), example_db) \<and>
   delete_post example_db 1 ''bob'' =
     (Inl (HTTPException 403 ''Not allowed to delete this post''), example_db) \<and>
   route_me example_auth example_db ''junk'' =
     (Inl (HTTPException 401 ''Invalid or expired token''), example_db) \<and>
   route_create_post example_auth example_db 7 ''junk'' ''x'' ''y'' =
     (Inl (HTTPException 401 ''Invalid or expired token''), example_db) \<and>
   route_update_post example_auth example_db ''junk'' 1 ''x'' ''y'' =
     (Inl (HTTPException 401 ''Invalid or expired token''), example_db) \<and>
   route_delete_post example_auth example_db ''junk'' 1 =
     (Inl (HTTPException 401 ''Invalid or expired token''), example_db)"
proof -
  have ids: "author_id alice_post \<noteq> user_id bob"
      "\<not> pwd_verify example_pwd_context ''wrong'' (hashed_password alice)"
    by (simp_all add: alice_post_def bob_def alice_def example_pwd_context_def)
  have guard: "get_current_user example_auth ''junk'' =
      Inl (HTTPException 401 ''Invalid or expired token'')"
    by (simp add: get_current_user_def example_auth_def)
  have hs:
    "signup example_pwd_context example_db ''alice'' ''wrong'' =
       (Inl (HTTPException 400 ''Username already exists''), example_db)"
    "signin example_pwd_context example_auth example_db ''alice'' ''wrong'' =
       (Inl (HTTPException 401 ''Invalid credentials''), example_db)"
    "create_post example_db 7 ''x'' ''y'' ''ghost'' =
       (Inl (HTTPException 404 ''User not found''), example_db)"
    "get_post example_db 99 = (Inl (HTTPException 404 ''Post not found''), example_db)"
    "update_post example_db 1 ''x'' ''y'' ''bob'' =
       (Inl (HTTPException 403 ''Not allowed to edit this post''), example_db)"
    "delete_post example_db 1 ''bob'' =
       (Inl (HTTPException 403 ''Not allowed to delete this post''), example_db)"
    "route_me example_auth example_db ''junk'' =
       (Inl (HTTPException 401 ''Invalid or expired token''), example_db)"
    "route_create_post example_auth example_db 7 ''junk'' ''x'' ''y'' =
       (Inl (HTTPException 401 ''Invalid or expired token''), example_db)"
    "route_update_post example_auth example_db ''junk'' 1 ''x'' ''y'' =
       (Inl (HTTPException 401 ''Invalid or expired token''), example_db)"
    "route_delete_post example_auth example_db ''junk'' 1 =
       (Inl (HTTPException 401 ''Invalid or expired token''), example_db)"
    using ids guard
    by (simp_all add: signup_def signin_def create_post_def get_post_def update_post_def
        delete_post_def route_me_def route_create_post_def route_update_post_def
        route_delete_post_def depends_current_user_def example_first_user example_first_post)
  show ?thesis
    using hs failed_handlers_leave_store
      [where pc = example_pwd_context and am = example_auth and dbs = example_db
         and uname = "''alice''" and password = "''wrong''" and now = 7 and t = "''x''"
         and c = "''y''" and actor = "''bob''" and pid = 1 and token = "''junk''"
         and e_a = "HTTPException 400 ''Username already exists''" and d_a = example_db
         and e_b = "HTTPException 401 ''Invalid credentials''" and d_b = example_db
         and e_e = "HTTPException 403 ''Not allowed to edit this post''" and d_e = example_db
         and e_f = "HTTPException 403 ''Not allowed to delete this post''" and d_f = example_db
         and e_g = "HTTPException 401 ''Invalid or expired token''" and d_g = example_db
         and e_h = "HTTPException 401 ''Invalid or expired token''" and d_h = example_db
         and e_i = "HTTPException 401 ''Invalid or expired token''" and d_i = example_db
         and e_j = "HTTPException 401 ''Invalid or expired token''" and d_j = example_db]
      failed_handlers_leave_store
      [where dbs = example_db and now = 7 and t = "''x''" and c = "''y''"
         and actor = "''ghost''" and pid = 99
         and e_c = "HTTPException 404 ''User not found''" and d_c = example_db
         and e_d = "HTTPException 404 ''Post not found''" and d_d = example_db]
    by simp
qed

section \<open>The Token Service and the round trip\<close>

text \<open>
  C3. Verification by the Token Service checks the signature first and the expiry
  second: a token string that does not decode, or whose signature does not match, is
  reported as \<open>Malformed\<close> whether or not it has expired; a token with a matching
  signature is reported as \<open>Expired\<close> from its expiry on and yields its claim before.
  The failure is a value of the result type, and the two failures are different values.
  The Authorization Guard maps either failure to 401 ("Invalid or expired token").
\<close>

theorem verify_signature_then_expiry:
  "verify sign cfg now (Undecodable raw) = Inl Malformed \<and>
   (s \<noteq> sign (signing_key cfg) c \<longrightarrow> verify sign cfg now (Signed c s) = Inl Malformed) \<and>
   (s = sign (signing_key cfg) c \<and> expires_at c \<le> now \<longrightarrow>
      verify sign cfg now (Signed c s) = Inl Expired) \<and>
   (s = sign (signing_key cfg) c \<and> now < expires_at c \<longrightarrow>
      verify sign cfg now (Signed c s) = Inr c) \<and>
   (Inl Malformed :: token_failure + claim) \<noteq> Inl Expired \<and>
   (verify sign cfg now tok = Inl failure \<longrightarrow>
      get_current_user (token_service sign cfg now) tok =
        Inl (HTTPException 401 ''Invalid or expired token''))"
  by (simp add: verify_def get_current_user_def token_service_def)

theorem verify_signature_then_expiry_witness:
  "''forged'' \<noteq> example_sign (signing_key example_config) example_claim \<and>
   expires_at example_claim \<le> 2000 \<and>
   verify example_sign example_config 2000 (Signed example_claim ''forged'') = Inl Malformed \<and>
   verify example_sign example_config 2000
     (Signed example_claim (example_sign (signing_key example_config) example_claim)) =
     Inl Expired \<and>
   100 < expires_at example_claim \<and>
   verify example_sign example_config 100
     (Signed example_claim (example_sign (signing_key example_config) example_claim)) =
     Inr example_claim \<and>
   get_current_user (token_service example_sign example_config 2000)
     (Signed example_claim ''forged'') =
     Inl (HTTPException 401 ''Invalid or expired token'') \<and>
   get_current_user (token_service example_sign example_config 2000)
     (Signed example_claim (example_sign (signing_key example_config) example_claim)) =
     Inl (HTTPException 401 ''Invalid or expired token'')"
proof -
  let ?good = "example_sign (signing_key example_config) example_claim"
  have forged: "''forged'' \<noteq> ?good"
    by (simp add: example_sign_def example_config_def example_claim_def)
  have times: "expires_at example_claim \<le> 2000" "100 < expires_at example_claim"
    by (simp_all add: example_claim_def)
  note inst = verify_signature_then_expiry
    [where sign = example_sign and cfg = example_config and c = example_claim]
  have a: "verify example_sign example_config 2000 (Signed example_claim ''forged'') = Inl Malformed"
    using inst [where now = 2000 and s = "''forged''"] forged by simp
  have b: "verify example_sign example_config 2000 (Signed example_claim ?good) = Inl Expired"
    using inst [where now = 2000 and s = ?good] times by simp
  have c: "verify example_sign example_config 100 (Signed example_claim ?good) = Inr example_claim"
    using inst [where now = 100 and s = ?good] times by simp
  have d: "get_current_user (token_service example_sign example_config 2000)
      (Signed example_claim ''forged'') = Inl (HTTPException 401 ''Invalid or expired token'')"
    using inst [where now = 2000 and s = "''forged''" and tok = "Signed example_claim ''forged''"
        and failure = Malformed] a by simp
  have e: "get_current_user (token_service example_sign example_config 2000)
      (Signed example_claim ?good) = Inl (HTTPException 401 ''Invalid or expired token'')"
    using inst [where now = 2000 and s = ?good and tok = "Signed example_claim ?good"
        and failure = Expired] b by simp
  show ?thesis using forged times a b c d e by simp
qed

text \<open>
  C4. For every username that is not yet in the User Store and every password that the
  Credential Hasher verifies against its own hash, signup succeeds, the signin that
  follows with the same pair succeeds and returns a bearer token, and that token,
  verified by the Token Service before its expiry, resolves to a claim whose subject is
  the username; the guard resolves the same username from it.
\<close>

theorem signup_signin_roundtrip:
  assumes "first_user dbs uname = None"
    and "pwd_verify pc password (pwd_hash pc password)"
    and "t_check < t_issue + lifetime cfg"
  shows "\<exists>dbs1 tok c.
           signup pc dbs uname password = (Inr (Message ''User created successfully''), dbs1) \<and>
           signin pc (token_service sign cfg t_issue) dbs1 uname password =
             (Inr (TokenResponse tok ''bearer''), dbs1) \<and>
           verify sign cfg t_check tok = Inr c \<and> subject c = uname \<and>
           get_current_user (token_service sign cfg t_check) tok = Inr uname"
proof -
  let ?nu = "\<lparr>user_id = fresh_id (map user_id (users dbs)), username = uname,
              hashed_password = pwd_hash pc password\<rparr>"
  let ?dbs1 = "dbs\<lparr>users := users dbs @ [?nu]\<rparr>"
  let ?c = "\<lparr>subject = uname, issued_at = t_issue, expires_at = t_issue + lifetime cfg\<rparr>"
  let ?tok = "Signed ?c (sign (signing_key cfg) ?c)"
  have su: "signup pc dbs uname password = (Inr (Message ''User created successfully''), ?dbs1)"
    using assms(1) by (simp add: signup_def Let_def)
  have "find (\<lambda>u. username u = uname) (users dbs @ [?nu]) = find (\<lambda>u. username u = uname) [?nu]"
    using assms(1) by (intro find_append_None) (simp add: first_user_def)
  then have fu: "first_user ?dbs1 uname = Some ?nu"
    by (simp add: first_user_def)
  have si: "signin pc (token_service sign cfg t_issue) ?dbs1 uname password =
      (Inr (TokenResponse ?tok ''bearer''), ?dbs1)"
    using fu assms(2) by (simp add: signin_def token_service_def issue_def Let_def)
  have v: "verify sign cfg t_check ?tok = Inr ?c"
    using assms(3) by (simp add: verify_def)
  have g: "get_current_user (token_service sign cfg t_check) ?tok = Inr uname"
    using v by (simp add: get_current_user_def token_service_def)
  show ?thesis using su si v g by (intro exI [of _ ?dbs1] exI [of _ ?tok] exI [of _ ?c]) simp
qed

theorem signup_signin_roundtrip_witness:
  "first_user example_db ''carol'' = None \<and>
   pwd_verify example_pwd_context ''pw3'' (pwd_hash example_pwd_context ''pw3'') \<and>
   (100::int) < 0 + lifetime example_config \<and>
   (\<exists>dbs1 tok c.
      signup example_pwd_context example_db ''carol'' ''pw3'' =
        (Inr (Message ''User created successfully''), dbs1) \<and>
      signin example_pwd_context (token_service example_sign example_config 0) dbs1
          ''carol'' ''pw3'' = (Inr (TokenResponse tok ''bearer''), dbs1) \<and>
      verify example_sign example_config 100 tok = Inr c \<and> subject c = ''carol'' \<and>
      get_current_user (token_service example_sign example_config 100) tok = Inr ''carol'')"
proof -
  have h: "pwd_verify example_pwd_context ''pw3'' (pwd_hash example_pwd_context ''pw3'')"
    by (simp add: example_pwd_context_def)
  have l: "(100::int) < 0 + lifetime example_config"
    by (simp add: example_config_def)
  show ?thesis
    using signup_signin_roundtrip [OF example_first_user(3) h l, of example_sign]
      example_first_user(3) h l
    by simp
qed

section \<open>Listing posts\<close>




end
